theory Spec2Isabelle
  imports Complex_Main "HOL-Library.Multiset"
begin

section \<open>Numbers, instants and strings of the program\<close>

text \<open>
  The program is TypeScript. Its numbers are modelled as exact rationals (\<open>rat\<close>): every
  literal of the scorer (\<open>0.3\<close>, \<open>1.2\<close>, \<open>365.25\<close>, ...) is read as the decimal fraction it
  denotes and the four operations are exact. A \<open>Date\<close> is the integer number of
  milliseconds since the epoch that \<open>getTime()\<close> returns; comparing two dates compares
  these integers. An optional or nullable field is an \<open>option\<close>.
\<close>

type_synonym number = rat
type_synonym Date = int

text \<open>\<open>Math.round\<close>: the nearest integer, a tie going towards plus infinity.\<close>

definition Math_round :: "number \<Rightarrow> int" where
  "Math_round x = \<lfloor>x + 1 / 2\<rfloor>"

text \<open>\<open>Math.floor\<close>.\<close>

definition Math_floor :: "number \<Rightarrow> int" where
  "Math_floor x = \<lfloor>x\<rfloor>"

text \<open>
  \<open>String.prototype.toLowerCase\<close> on the ASCII letters: a character is a byte, the
  capital letters \<open>A\<close> to \<open>Z\<close> (codes 65 to 90) move to the small ones, every other byte
  stays.
\<close>

definition lowerChar :: "char \<Rightarrow> char" where
  "lowerChar c =
     (let n = (of_char c :: nat)
      in if 65 \<le> n \<and> n \<le> 90 then char_of (n + 32) else c)"

definition toLowerCase :: "string \<Rightarrow> string" where
  "toLowerCase s = map lowerChar s"

text \<open>\<open>xs || []\<close> for an optional array.\<close>

definition orEmpty :: "'a list option \<Rightarrow> 'a list" where
  "orEmpty xs = (case xs of None \<Rightarrow> [] | Some ys \<Rightarrow> ys)"

text \<open>
  \<open>!x\<close> for an optional number: true when the field is absent and also when the number
  is \<open>0\<close>.
\<close>

definition falsy :: "number option \<Rightarrow> bool" where
  "falsy x = (case x of None \<Rightarrow> True | Some v \<Rightarrow> v = 0)"

section \<open>Profiles\<close>

record AuPairProfile =
  languages :: "string list option"
  preferredCountries :: "string list option"
  dateOfBirth :: "Date option"
  availableFrom :: "Date option"
  availableTo :: "Date option"
  hourlyRate :: "number option"

record HostFamilyProfile =
  preferredLanguages :: "string list option"
  country :: "string option"
  childrenAges :: "int list option"
  maxBudget :: "number option"

section \<open>The match scorer (utils/matching.ts)\<close>

definition calculateLanguageMatch :: "string list \<Rightarrow> string list \<Rightarrow> number" where
  "calculateLanguageMatch auPairLangs hostPreferredLangs =
     (if length hostPreferredLangs = 0 then 100
      else
        let commonLanguages =
              filter (\<lambda>lang. list_ex (\<lambda>preferred. toLowerCase preferred = toLowerCase lang)
                                hostPreferredLangs)
                     auPairLangs
        in (of_nat (length commonLanguages) / of_nat (length hostPreferredLangs)) * 100)"

text \<open>
  \<open>calculateAgeMatch\<close> reads the clock itself (\<open>Date.now()\<close>); the reading is the
  first argument.
\<close>

definition calculateAgeMatch :: "Date \<Rightarrow> Date option \<Rightarrow> int list \<Rightarrow> number" where
  "calculateAgeMatch dateNow auPairBirthDate childrenAges' =
     (case auPairBirthDate of
        None \<Rightarrow> 50
      | Some birth \<Rightarrow>
          if length childrenAges' = 0 then 50
          else
            let auPairAge = Math_floor (of_int (dateNow - birth) / (365.25 * 24 * 60 * 60 * 1000));
                hasYoungChildren = list_ex (\<lambda>age. age \<le> 10) childrenAges';
                hasTeens = list_ex (\<lambda>age. age \<ge> 11) childrenAges'
            in if hasYoungChildren \<and> auPairAge \<ge> 18 \<and> auPairAge \<le> 30 then 100
               else if hasTeens \<and> auPairAge \<ge> 20 \<and> auPairAge \<le> 35 then 100
               else if auPairAge \<ge> 18 \<and> auPairAge \<le> 35 then 70
               else 30)"

definition calculateAvailabilityMatch :: "Date option \<Rightarrow> Date option \<Rightarrow> Date option \<Rightarrow> number" where
  "calculateAvailabilityMatch auPairFrom auPairTo hostPreferredStart =
     (case (auPairFrom, auPairTo, hostPreferredStart) of
        (Some from, Some to, Some start) \<Rightarrow>
          if start \<ge> from \<and> start \<le> to then 100
          else
            let timeDiff = \<bar>start - from\<bar>;
                daysDiff = (of_int timeDiff :: number) / (1000 * 60 * 60 * 24)
            in if daysDiff \<le> 30 then 80
               else if daysDiff \<le> 90 then 60
               else if daysDiff \<le> 180 then 30
               else 10
      | _ \<Rightarrow> 50)"

definition calculateBudgetMatch :: "number option \<Rightarrow> number option \<Rightarrow> number" where
  "calculateBudgetMatch auPairRate hostBudget =
     (if falsy auPairRate \<or> falsy hostBudget then 50
      else
        case (auPairRate, hostBudget) of
          (Some rate, Some budget) \<Rightarrow>
            if rate \<le> budget then 100
            else
              let overBudgetRatio = rate / budget
              in if overBudgetRatio \<le> 1.2 then 70
                 else if overBudgetRatio \<le> 1.5 then 40
                 else 10
        | _ \<Rightarrow> 50)"

text \<open>
  \<open>preferredCountries?.includes(country)\<close>: false when the array is absent; an absent
  country is no element of an array of strings.
\<close>

definition includesCountry :: "string list option \<Rightarrow> string option \<Rightarrow> bool" where
  "includesCountry countries c =
     (case countries of
        None \<Rightarrow> False
      | Some cs \<Rightarrow> (case c of None \<Rightarrow> False | Some x \<Rightarrow> x \<in> set cs))"

text \<open>
  \<open>calculateMatchScore\<close> reads the clock once more (\<open>new Date()\<close>, the host's preferred
  start) after \<open>calculateAgeMatch\<close> has read it; the two readings are the first two
  arguments. The variable \<open>score\<close> is threaded through the five blocks as in the source.
\<close>

definition calculateMatchScore :: "Date \<Rightarrow> Date \<Rightarrow> AuPairProfile \<Rightarrow> HostFamilyProfile \<Rightarrow> int" where
  "calculateMatchScore dateNow newDate auPairProfile hostProfile =
     (let score0 = (0 :: number);
          languageScore = calculateLanguageMatch (orEmpty (languages auPairProfile))
                            (orEmpty (preferredLanguages hostProfile));
          score1 = score0 + languageScore * 0.3;
          score2 = (if includesCountry (preferredCountries auPairProfile) (country hostProfile)
                    then score1 + 25 else score1);
          ageScore = calculateAgeMatch dateNow (dateOfBirth auPairProfile)
                       (orEmpty (childrenAges hostProfile));
          score3 = score2 + ageScore * 0.2;
          availabilityScore = calculateAvailabilityMatch (availableFrom auPairProfile)
                                (availableTo auPairProfile) (Some newDate);
          score4 = score3 + availabilityScore * 0.15;
          budgetScore = calculateBudgetMatch (hourlyRate auPairProfile) (maxBudget hostProfile);
          score5 = score4 + budgetScore * 0.1
      in Math_round score5)"

section \<open>Ranking (findMatches and the route GET /potential)\<close>

datatype Role = AU_PAIR | HOST_FAMILY | ADMIN

record User =
  user_id :: string
  role :: Role
  isActive :: bool
  auPairProfile :: "AuPairProfile option"
  hostFamilyProfile :: "HostFamilyProfile option"

text \<open>An element of the result: the user row together with its \<open>matchScore\<close>.\<close>

type_synonym ScoredUser = "User \<times> int"

definition matchScore :: "ScoredUser \<Rightarrow> int" where
  "matchScore m = snd m"

text \<open>
  \<open>Array.prototype.sort\<close> with a comparison function. ECMAScript requires the sort to be
  stable; it is modelled as the insertion sort that puts an element in front of the first
  later element it does not have to follow.
\<close>

fun insertBy :: "('a \<Rightarrow> 'a \<Rightarrow> int) \<Rightarrow> 'a \<Rightarrow> 'a list \<Rightarrow> 'a list" where
  "insertBy cmp x [] = [x]"
| "insertBy cmp x (y # ys) = (if cmp x y \<le> 0 then x # y # ys else y # insertBy cmp x ys)"

definition sortBy :: "('a \<Rightarrow> 'a \<Rightarrow> int) \<Rightarrow> 'a list \<Rightarrow> 'a list" where
  "sortBy cmp xs = foldr (insertBy cmp) xs []"

text \<open>The comparison function of \<open>findMatches\<close>: \<open>(a, b) => b.matchScore - a.matchScore\<close>.\<close>

definition byScoreDesc :: "ScoredUser \<Rightarrow> ScoredUser \<Rightarrow> int" where
  "byScoreDesc a b = matchScore b - matchScore a"

text \<open>
  \<open>xs.slice(0, limit)\<close>: a negative \<open>limit\<close> counts from the end of the array, one beyond
  the length stops at the length.
\<close>

definition slice0 :: "'a list \<Rightarrow> int \<Rightarrow> 'a list" where
  "slice0 xs limit =
     (if limit < 0 then take (nat (int (length xs) + limit)) xs else take (nat limit) xs)"

text \<open>\<open>prisma.user.findUnique({ where: { id } })\<close> on the table of users.\<close>

definition findUnique :: "User list \<Rightarrow> string \<Rightarrow> User option" where
  "findUnique users uid = find (\<lambda>u. user_id u = uid) users"

datatype Error = UserNotFound

text \<open>
  \<open>rows.filter(u => u.profile)\<close>: the rows whose profile is present, each with that
  profile.
\<close>

definition withProfile :: "(User \<Rightarrow> 'p option) \<Rightarrow> User list \<Rightarrow> (User \<times> 'p) list" where
  "withProfile profile rows =
     List.map_filter (\<lambda>u. case profile u of None \<Rightarrow> None | Some p \<Rightarrow> Some (u, p)) rows"

text \<open>
  The array \<open>potentialMatches\<close> of \<open>findMatches\<close>, before it is sorted. Every call of
  \<open>calculateMatchScore\<close> reads the clock anew: \<open>clock i\<close> is the pair of readings
  (\<open>Date.now()\<close>, \<open>new Date()\<close>) taken while the \<open>i\<close>-th row is scored.
\<close>

definition potentialMatches :: "(nat \<Rightarrow> Date \<times> Date) \<Rightarrow> User list \<Rightarrow> User \<Rightarrow> ScoredUser list" where
  "potentialMatches clock users user =
     (case (role user, auPairProfile user, hostFamilyProfile user) of
        (AU_PAIR, Some ownProfile, _) \<Rightarrow>
          (let hostFamilies =
                 filter (\<lambda>u. role u = HOST_FAMILY \<and> isActive u \<and> user_id u \<noteq> user_id user) users
           in map (\<lambda>(i, host, profile).
                     (host, calculateMatchScore (fst (clock i)) (snd (clock i)) ownProfile profile))
                  (enumerate 0 (withProfile hostFamilyProfile hostFamilies)))
      | (HOST_FAMILY, _, Some ownProfile) \<Rightarrow>
          (let auPairs =
                 filter (\<lambda>u. role u = AU_PAIR \<and> isActive u \<and> user_id u \<noteq> user_id user) users
           in map (\<lambda>(i, auPair, profile).
                     (auPair, calculateMatchScore (fst (clock i)) (snd (clock i)) profile ownProfile))
                  (enumerate 0 (withProfile auPairProfile auPairs)))
      | _ \<Rightarrow> [])"

text \<open>\<open>findMatches(userId, limit = 20)\<close>; the thrown \<open>Error('User not found')\<close> is \<open>Inl\<close>.\<close>

definition findMatches :: "(nat \<Rightarrow> Date \<times> Date) \<Rightarrow> User list \<Rightarrow> string \<Rightarrow> int option \<Rightarrow> Error + ScoredUser list" where
  "findMatches clock users userId limit =
     (let limit' = (case limit of None \<Rightarrow> 20 | Some n \<Rightarrow> n)
      in case findUnique users userId of
           None \<Rightarrow> Inl UserNotFound
         | Some user \<Rightarrow> Inr (slice0 (sortBy byScoreDesc (potentialMatches clock users user)) limit'))"

text \<open>
  The route \<open>GET /potential\<close>: \<open>parseInt(req.query.limit) || 20\<close>, where the argument is
  the parsed query parameter (\<open>None\<close> when it is missing or no number).
\<close>

definition potentialLimit :: "int option \<Rightarrow> int" where
  "potentialLimit q = (case q of None \<Rightarrow> 20 | Some n \<Rightarrow> if n = 0 then 20 else n)"

datatype Response = Response (statusCode: nat) (message: string)

definition getPotential :: "(nat \<Rightarrow> Date \<times> Date) \<Rightarrow> User list \<Rightarrow> string \<Rightarrow> int option \<Rightarrow> Response + ScoredUser list" where
  "getPotential clock users userId q =
     (case findMatches clock users userId (Some (potentialLimit q)) of
        Inl e \<Rightarrow> Inl (Response 500 ''Internal server error'')
      | Inr matches \<Rightarrow> Inr matches)"

section \<open>Bookings (routes/bookings.ts)\<close>

datatype BookingStatus = PENDING | APPROVED | REJECTED | CANCELLED | COMPLETED

record Booking =
  auPairId :: string
  hostId :: string
  startDate :: Date
  endDate :: Date
  status :: BookingStatus

datatype MatchStatus = MATCH_PENDING | MATCH_APPROVED | MATCH_REJECTED

record Match =
  match_hostId :: string
  match_auPairId :: string
  match_status :: MatchStatus

record Db =
  users :: "User list"
  matches :: "Match list"
  bookings :: "Booking list"

text \<open>
  The \<open>where\<close> clause of the query for a conflicting booking, as a predicate on a row:
  the au pair, the status filter and the \<open>OR\<close> of the three \<open>AND\<close> blocks.
\<close>

definition conflictWhere :: "string \<Rightarrow> Date \<Rightarrow> Date \<Rightarrow> Booking \<Rightarrow> bool" where
  "conflictWhere auPair reqStart reqEnd b =
     (auPairId b = auPair \<and>
      status b \<in> set [PENDING, APPROVED] \<and>
      ((startDate b \<le> reqStart \<and> endDate b \<ge> reqStart) \<or>
       (startDate b \<le> reqEnd \<and> endDate b \<ge> reqEnd) \<or>
       (startDate b \<ge> reqStart \<and> endDate b \<le> reqEnd)))"

text \<open>\<open>prisma.booking.findFirst({ where })\<close>: the first row that satisfies the clause.\<close>

definition conflictingBooking :: "Booking list \<Rightarrow> string \<Rightarrow> Date \<Rightarrow> Date \<Rightarrow> Booking option" where
  "conflictingBooking rows auPair reqStart reqEnd = find (conflictWhere auPair reqStart reqEnd) rows"

text \<open>The \<open>where\<close> clause of the query for an approved match between the two users.\<close>

definition matchWhere :: "Role \<Rightarrow> string \<Rightarrow> string \<Rightarrow> Match \<Rightarrow> bool" where
  "matchWhere userRole userId targetUserId m =
     (match_hostId m = (if userRole = HOST_FAMILY then userId else targetUserId) \<and>
      match_auPairId m = (if userRole = AU_PAIR then userId else targetUserId) \<and>
      match_status m = MATCH_APPROVED)"

text \<open>
  The body of a request to \<open>POST /\<close>. A field that is missing or the empty string is
  \<open>None\<close> (both are falsy); the dates are the instants \<open>new Date(startDate)\<close> and
  \<open>new Date(endDate)\<close> denote. The fields \<open>totalHours\<close>, \<open>hourlyRate\<close>, \<open>currency\<close> and
  \<open>notes\<close> are copied into the new row and read by no check; they are left out, as are the
  columns of a booking they fill.
\<close>

record BookingRequest =
  req_userId :: string
  req_userRole :: Role
  req_targetUserId :: "string option"
  req_startDate :: "Date option"
  req_endDate :: "Date option"

text \<open>
  The handler of \<open>POST /\<close>: the reading of the clock, the database and the request give
  the response and the database afterwards. Every early \<open>return res.status(...)\<close> is a
  branch; only the last branch writes. The queries are taken to succeed: the \<open>catch\<close>
  branch (status 500) answers a failing database call, which the model does not have.
\<close>

definition createBooking :: "Date \<Rightarrow> Db \<Rightarrow> BookingRequest \<Rightarrow> Response \<times> Db" where
  "createBooking now db req =
     (case (req_targetUserId req, req_startDate req, req_endDate req) of
        (Some targetUserId, Some reqStart, Some reqEnd) \<Rightarrow>
          if reqStart \<ge> reqEnd then
            (Response 400 ''End date must be after start date'', db)
          else if reqStart < now then
            (Response 400 ''Start date cannot be in the past'', db)
          else
            (case findUnique (users db) targetUserId of
               None \<Rightarrow> (Response 404 ''Target user not found or inactive'', db)
             | Some targetUser \<Rightarrow>
                 if \<not> isActive targetUser then
                   (Response 404 ''Target user not found or inactive'', db)
                 else if (req_userRole req = AU_PAIR \<and> role targetUser \<noteq> HOST_FAMILY) \<or>
                         (req_userRole req = HOST_FAMILY \<and> role targetUser \<noteq> AU_PAIR) then
                   (Response 400 ''Bookings can only be made between au pairs and host families'', db)
                 else
                   (case find (matchWhere (req_userRole req) (req_userId req) targetUserId) (matches db) of
                      None \<Rightarrow>
                        (Response 403 ''You can only create bookings with users you have an approved match with'', db)
                    | Some match \<Rightarrow>
                        let auPair = (if req_userRole req = AU_PAIR then req_userId req else targetUserId);
                            host = (if req_userRole req = HOST_FAMILY then req_userId req else targetUserId)
                        in (case conflictingBooking (bookings db) auPair reqStart reqEnd of
                              Some conflicting \<Rightarrow>
                                (Response 400 ''There is a conflicting booking for this time period'', db)
                            | None \<Rightarrow>
                                (Response 201 ''Booking request created successfully'',
                                 db\<lparr>bookings := bookings db @
                                    [\<lparr>auPairId = auPair, hostId = host, startDate = reqStart,
                                      endDate = reqEnd, status = PENDING\<rparr>]\<rparr>))))
      | _ \<Rightarrow> (Response 400 ''Target user, start date, and end date are required'', db))"

section \<open>The scoring rules as the specification words them\<close>



text \<open>The candidate's age: days elapsed since the date of birth, divided by 365.25.\<close>

definition spec_age :: "Date \<Rightarrow> Date \<Rightarrow> int" where
  "spec_age now birth = \<lfloor>(of_int (now - birth) / 86400000 :: number) / 365.25\<rfloor>"

definition spec_ageSubScore :: "Date \<Rightarrow> Date option \<Rightarrow> int list \<Rightarrow> number" where
  "spec_ageSubScore now birth ages =
     (case birth of
        None \<Rightarrow> 50
      | Some b \<Rightarrow>
          if ages = [] then 50
          else if (\<exists>c \<in> set ages. c \<le> 10) \<and> 18 \<le> spec_age now b \<and> spec_age now b \<le> 30 then 100
          else if (\<exists>c \<in> set ages. 11 \<le> c) \<and> 20 \<le> spec_age now b \<and> spec_age now b \<le> 35 then 100
          else if 18 \<le> spec_age now b \<and> spec_age now b \<le> 35 then 70
          else 30)"

definition spec_availabilitySubScore :: "Date option \<Rightarrow> Date option \<Rightarrow> Date option \<Rightarrow> number" where
  "spec_availabilitySubScore from to reference =
     (case (from, to, reference) of
        (Some f, Some t, Some r) \<Rightarrow>
          if f \<le> r \<and> r \<le> t then 100
          else if \<bar>of_int r - of_int f\<bar> / 86400000 \<le> (30 :: number) then 80
          else if \<bar>of_int r - of_int f\<bar> / 86400000 \<le> (90 :: number) then 60
          else if \<bar>of_int r - of_int f\<bar> / 86400000 \<le> (180 :: number) then 30
          else 10
      | _ \<Rightarrow> 50)"






section \<open>What each block adds to the score\<close>

text \<open>
  The amounts the five blocks of \<open>calculateMatchScore\<close> add to \<open>score\<close>; they name the
  contribution of a factor in the statements below.
\<close>

definition languagePoints :: "AuPairProfile \<Rightarrow> HostFamilyProfile \<Rightarrow> number" where
  "languagePoints a h =
     calculateLanguageMatch (orEmpty (languages a)) (orEmpty (preferredLanguages h)) * 0.3"

definition countryPoints :: "AuPairProfile \<Rightarrow> HostFamilyProfile \<Rightarrow> number" where
  "countryPoints a h = (if includesCountry (preferredCountries a) (country h) then 25 else 0)"

definition agePoints :: "Date \<Rightarrow> AuPairProfile \<Rightarrow> HostFamilyProfile \<Rightarrow> number" where
  "agePoints dateNow a h =
     calculateAgeMatch dateNow (dateOfBirth a) (orEmpty (childrenAges h)) * 0.2"

definition availabilityPoints :: "Date \<Rightarrow> AuPairProfile \<Rightarrow> number" where
  "availabilityPoints newDate a =
     calculateAvailabilityMatch (availableFrom a) (availableTo a) (Some newDate) * 0.15"

definition budgetPoints :: "AuPairProfile \<Rightarrow> HostFamilyProfile \<Rightarrow> number" where
  "budgetPoints a h = calculateBudgetMatch (hourlyRate a) (maxBudget h) * 0.1"

text \<open>Two strings that differ in the case of their letters only.\<close>

definition sameIgnoringCase :: "string \<Rightarrow> string \<Rightarrow> bool" where
  "sameIgnoringCase s t = (toLowerCase s = toLowerCase t)"

text \<open>\<open>String.prototype.toUpperCase\<close> on the ASCII letters.\<close>

definition upperChar :: "char \<Rightarrow> char" where
  "upperChar c =
     (let n = (of_char c :: nat)
      in if 97 \<le> n \<and> n \<le> 122 then char_of (n - 32) else c)"

definition toUpperCase :: "string \<Rightarrow> string" where
  "toUpperCase s = map upperChar s"

section \<open>Sample profiles\<close>

text \<open>Profiles with every optional field absent, and the two profiles of the seed data.\<close>

definition noAuPair :: AuPairProfile where
  "noAuPair = \<lparr>languages = None, preferredCountries = None, dateOfBirth = None,
     availableFrom = None, availableTo = None, hourlyRate = None\<rparr>"

definition noHost :: HostFamilyProfile where
  "noHost = \<lparr>preferredLanguages = None, country = None, childrenAges = None, maxBudget = None\<rparr>"

definition seedAuPair :: AuPairProfile where
  "seedAuPair = \<lparr>languages = Some [''French'', ''English'', ''Spanish''],
     preferredCountries = Some [''USA'', ''Canada'', ''Australia''],
     dateOfBirth = Some 0, availableFrom = Some 790000000000, availableTo = Some 810000000000,
     hourlyRate = Some 15\<rparr>"

definition seedHost :: HostFamilyProfile where
  "seedHost = \<lparr>preferredLanguages = Some [''english''], country = Some ''USA'',
     childrenAges = Some [5, 8], maxBudget = Some 20\<rparr>"

section \<open>A sample database\<close>

text \<open>
  One au pair, three active host families (two of them with the same, empty, profile), one
  inactive host family and one host family without a profile; an approved match; a rejected
  and an approved booking of the au pair. Instants are small numbers of milliseconds.
\<close>

definition sampleAuPairUser :: User where
  "sampleAuPairUser = \<lparr>user_id = ''ap'', role = AU_PAIR, isActive = True,
     auPairProfile = Some seedAuPair, hostFamilyProfile = None\<rparr>"

definition sampleUsers :: "User list" where
  "sampleUsers =
     [sampleAuPairUser,
      \<lparr>user_id = ''h1'', role = HOST_FAMILY, isActive = True,
        auPairProfile = None, hostFamilyProfile = Some noHost\<rparr>,
      \<lparr>user_id = ''h2'', role = HOST_FAMILY, isActive = True,
        auPairProfile = None, hostFamilyProfile = Some seedHost\<rparr>,
      \<lparr>user_id = ''h3'', role = HOST_FAMILY, isActive = False,
        auPairProfile = None, hostFamilyProfile = Some seedHost\<rparr>,
      \<lparr>user_id = ''h4'', role = HOST_FAMILY, isActive = True,
        auPairProfile = None, hostFamilyProfile = None\<rparr>,
      \<lparr>user_id = ''h5'', role = HOST_FAMILY, isActive = True,
        auPairProfile = None, hostFamilyProfile = Some noHost\<rparr>]"

definition sampleClock :: "nat \<Rightarrow> Date \<times> Date" where
  "sampleClock i = (800000000000 + int i, 800000000001 + int i)"

definition sampleBookings :: "Booking list" where
  "sampleBookings =
     [\<lparr>auPairId = ''ap'', hostId = ''h1'', startDate = 2, endDate = 4, status = REJECTED\<rparr>,
      \<lparr>auPairId = ''ap'', hostId = ''h2'', startDate = 15, endDate = 20, status = APPROVED\<rparr>]"

definition sampleDb :: Db where
  "sampleDb = \<lparr>users = sampleUsers,
     matches = [\<lparr>match_hostId = ''h2'', match_auPairId = ''ap'', match_status = MATCH_APPROVED\<rparr>],
     bookings = sampleBookings\<rparr>"

definition sampleRequest :: BookingRequest where
  "sampleRequest = \<lparr>req_userId = ''ap'', req_userRole = AU_PAIR, req_targetUserId = Some ''h2'',
     req_startDate = Some 30, req_endDate = Some 40\<rparr>"

section \<open>Auxiliary facts about the scorer\<close>

lemma Math_round_add_int: "Math_round (of_int k + x) = k + Math_round x"
  by (simp add: Math_round_def add.assoc)

lemma Math_round_add_numeral: "Math_round (numeral k + x) = numeral k + Math_round x"
  using Math_round_add_int [of "numeral k" x] by simp

lemma calculateMatchScore_points:
  "calculateMatchScore dn nd a h =
     Math_round (languagePoints a h + countryPoints a h + agePoints dn a h
                 + availabilityPoints nd a + budgetPoints a h)"
  by (simp add: calculateMatchScore_def Let_def languagePoints_def countryPoints_def agePoints_def
      availabilityPoints_def budgetPoints_def)


lemma points_ignore_languages:
  "countryPoints (a\<lparr>languages := x\<rparr>) (h\<lparr>preferredLanguages := y\<rparr>) = countryPoints a h"
  "agePoints dn (a\<lparr>languages := x\<rparr>) (h\<lparr>preferredLanguages := y\<rparr>) = agePoints dn a h"
  "availabilityPoints nd (a\<lparr>languages := x\<rparr>) = availabilityPoints nd a"
  "budgetPoints (a\<lparr>languages := x\<rparr>) (h\<lparr>preferredLanguages := y\<rparr>) = budgetPoints a h"
  "countryPoints a (h\<lparr>preferredLanguages := y\<rparr>) = countryPoints a h"
  "agePoints dn a (h\<lparr>preferredLanguages := y\<rparr>) = agePoints dn a h"
  "budgetPoints a (h\<lparr>preferredLanguages := y\<rparr>) = budgetPoints a h"
  "countryPoints (a\<lparr>languages := x\<rparr>) h = countryPoints a h"
  "agePoints dn (a\<lparr>languages := x\<rparr>) h = agePoints dn a h"
  "budgetPoints (a\<lparr>languages := x\<rparr>) h = budgetPoints a h"
  by (simp_all add: countryPoints_def agePoints_def availabilityPoints_def budgetPoints_def)

lemma lowerChar_upperChar: "lowerChar (upperChar c) = lowerChar c"
  by (auto simp: lowerChar_def upperChar_def Let_def)

lemma lowerChar_idem: "lowerChar (lowerChar c) = lowerChar c"
  by (auto simp: lowerChar_def Let_def)

text \<open>Upper-casing and lower-casing a string give a string that differs in case only.\<close>

lemma sameIgnoringCase_toUpperCase: "sameIgnoringCase (toUpperCase s) s"
  by (simp add: sameIgnoringCase_def toLowerCase_def toUpperCase_def lowerChar_upperChar)

lemma sameIgnoringCase_toLowerCase: "sameIgnoringCase (toLowerCase s) s"
  by (simp add: sameIgnoringCase_def toLowerCase_def lowerChar_idem)

subsection \<open>The code's sub-scores are the specification's\<close>


lemma age_floor:
  "Math_floor (of_int d / (365.25 * 24 * 60 * 60 * 1000)) = \<lfloor>(of_int d / 86400000 :: rat) / 365.25\<rfloor>"
  unfolding Math_floor_def by simp

lemma age_bands:
  "(let auPairAge = (A :: int);
        hasYoungChildren = list_ex (\<lambda>age. age \<le> 10) (ages :: int list);
        hasTeens = list_ex (\<lambda>age. age \<ge> 11) ages
    in if hasYoungChildren \<and> auPairAge \<ge> 18 \<and> auPairAge \<le> 30 then 100
       else if hasTeens \<and> auPairAge \<ge> 20 \<and> auPairAge \<le> 35 then 100
       else if auPairAge \<ge> 18 \<and> auPairAge \<le> 35 then 70
       else (30 :: rat))
   = (if (\<exists>c \<in> set ages. c \<le> 10) \<and> 18 \<le> A \<and> A \<le> 30 then 100
      else if (\<exists>c \<in> set ages. 11 \<le> c) \<and> 20 \<le> A \<and> A \<le> 35 then 100
      else if 18 \<le> A \<and> A \<le> 35 then 70
      else 30)"
  by (auto simp add: Let_def list_ex_iff)

lemma age_rule: "calculateAgeMatch n b ages = spec_ageSubScore n b ages"
  unfolding calculateAgeMatch_def spec_ageSubScore_def spec_age_def age_floor age_bands
  by (simp split: option.splits)

lemma days_diff:
  "(of_int \<bar>r - f\<bar> :: rat) / (1000 * 60 * 60 * 24) = \<bar>of_int r - of_int f\<bar> / 86400000"
  by simp

lemma availability_rule: "calculateAvailabilityMatch f t r = spec_availabilitySubScore f t r"
  unfolding calculateAvailabilityMatch_def spec_availabilitySubScore_def Let_def days_diff
  by (simp split: option.splits)




lemma calculateLanguageMatch_lower:
  "calculateLanguageMatch ls ps =
     (if ps = [] then 100
      else of_nat (length (filter (\<lambda>l. l \<in> set (map toLowerCase ps)) (map toLowerCase ls)))
             / of_nat (length (map toLowerCase ps)) * 100)"
proof -
  have "(\<lambda>lang. list_ex (\<lambda>preferred. toLowerCase preferred = toLowerCase lang) ps)
        = (\<lambda>l. l \<in> set (map toLowerCase ps)) \<circ> toLowerCase"
    unfolding list_ex_iff fun_eq_iff comp_def set_map image_iff by metis
  then show ?thesis
    unfolding calculateLanguageMatch_def Let_def filter_map by simp
qed



subsection \<open>Bounds of the sub-scores\<close>

text \<open>
  When no two of the candidate's languages agree up to letter case, the language sub-score
  is at most 100 and the score lies between 0 and 100.
\<close>

lemma language_bounds:
  assumes "distinct (map toLowerCase ls)"
  shows "0 \<le> calculateLanguageMatch ls ps \<and> calculateLanguageMatch ls ps \<le> 100"
proof (cases "ps = []")
  case True
  then show ?thesis by (simp add: calculateLanguageMatch_def)
next
  case False
  define c where "c = length (filter (\<lambda>l. l \<in> set (map toLowerCase ps)) (map toLowerCase ls))"
  define m where "m = length (map toLowerCase ps)"
  have "distinct (filter (\<lambda>l. l \<in> set (map toLowerCase ps)) (map toLowerCase ls))"
    using assms by (rule distinct_filter)
  then have "c = card (set (filter (\<lambda>l. l \<in> set (map toLowerCase ps)) (map toLowerCase ls)))"
    unfolding c_def by (rule distinct_card [symmetric])
  also have "\<dots> \<le> card (set (map toLowerCase ps))"
    by (rule card_mono) auto
  also have "\<dots> \<le> m" unfolding m_def by (rule card_length)
  finally have "c \<le> m" .
  moreover have "0 < m" using False by (simp add: m_def)
  ultimately have "0 \<le> (of_nat c :: rat) / of_nat m * 100 \<and> (of_nat c :: rat) / of_nat m * 100 \<le> 100"
    by (simp add: divide_le_eq)
  moreover have "calculateLanguageMatch ls ps = of_nat c / of_nat m * 100"
    unfolding calculateLanguageMatch_lower c_def m_def using False by (simp only: if_False)
  ultimately show ?thesis by simp
qed

lemma age_bounds: "30 \<le> calculateAgeMatch n b ages \<and> calculateAgeMatch n b ages \<le> 100"
  unfolding age_rule spec_ageSubScore_def by (simp split: option.splits)

lemma availability_bounds:
  "10 \<le> calculateAvailabilityMatch f t r \<and> calculateAvailabilityMatch f t r \<le> 100"
  unfolding availability_rule spec_availabilitySubScore_def by (simp split: option.splits)

lemma budget_bounds: "10 \<le> calculateBudgetMatch r b \<and> calculateBudgetMatch r b \<le> 100"
  unfolding calculateBudgetMatch_def Let_def by (simp split: option.splits)

lemma score_in_range_distinct:
  assumes "distinct (map toLowerCase (orEmpty (languages a)))"
  shows "0 \<le> calculateMatchScore dn nd a h \<and> calculateMatchScore dn nd a h \<le> 100"
proof -
  have L: "0 \<le> languagePoints a h \<and> languagePoints a h \<le> 30"
    using language_bounds [OF assms, of "orEmpty (preferredLanguages h)"]
    by (simp add: languagePoints_def)
  have C: "0 \<le> countryPoints a h \<and> countryPoints a h \<le> 25"
    by (simp add: countryPoints_def)
  have A: "0 \<le> agePoints dn a h \<and> agePoints dn a h \<le> 20"
    using age_bounds [of dn "dateOfBirth a" "orEmpty (childrenAges h)"]
    by (simp add: agePoints_def)
  have V: "0 \<le> availabilityPoints nd a \<and> availabilityPoints nd a \<le> 15"
    using availability_bounds [of "availableFrom a" "availableTo a" "Some nd"]
    by (simp add: availabilityPoints_def)
  have B: "0 \<le> budgetPoints a h \<and> budgetPoints a h \<le> 10"
    using budget_bounds [of "hourlyRate a" "maxBudget h"]
    by (simp add: budgetPoints_def)
  show ?thesis
    unfolding calculateMatchScore_points Math_round_def
    using L C A V B by (simp add: le_floor_iff floor_le_iff)
qed

section \<open>Claims about the match scorer\<close>




text \<open>
  Claim C3 (the score is an integer in the closed interval from 0 to 100) does not hold of
  the code when the candidate's language list repeats a language: four entries that match
  the single preferred language give the language sub-score 400, which alone adds 120
  points where the code's comment promises 30. The score at this input is 150. (Without
  such repetitions the score is in range, see \<open>score_in_range_distinct\<close>.)
\<close>

theorem score_exceeds_100:
  "calculateMatchScore 5 5
     (noAuPair\<lparr>languages := Some [''en'', ''en'', ''en'', ''en''],
               availableFrom := Some 0, availableTo := Some 10\<rparr>)
     (noHost\<lparr>preferredLanguages := Some [''en'']\<rparr>) = 150"
  by code_simp








text \<open>
  Claim C7: when the counterparty's preferred languages are empty (or absent), the language
  sub-score is 100 for every list of candidate languages, and the language block adds
  exactly 30 points to the final score.
\<close>

theorem no_language_preference:
  "calculateLanguageMatch ls [] = 100 \<and>
   languagePoints a (h\<lparr>preferredLanguages := Some []\<rparr>) = 30 \<and>
   languagePoints a (h\<lparr>preferredLanguages := None\<rparr>) = 30 \<and>
   calculateMatchScore dn nd a (h\<lparr>preferredLanguages := Some []\<rparr>)
     = 30 + Math_round (countryPoints a h + agePoints dn a h + availabilityPoints nd a
                        + budgetPoints a h) \<and>
   calculateMatchScore dn nd a (h\<lparr>preferredLanguages := None\<rparr>)
     = 30 + Math_round (countryPoints a h + agePoints dn a h + availabilityPoints nd a
                        + budgetPoints a h)"
proof -
  let ?rest = "countryPoints a h + agePoints dn a h + availabilityPoints nd a + budgetPoints a h"
  have 1: "calculateLanguageMatch ls [] = 100" for ls
    by (simp add: calculateLanguageMatch_def)
  have 2: "languagePoints a (h\<lparr>preferredLanguages := Some []\<rparr>) = 30"
    "languagePoints a (h\<lparr>preferredLanguages := None\<rparr>) = 30"
    by (simp_all add: languagePoints_def orEmpty_def 1)
  have 3: "calculateMatchScore dn nd a (h\<lparr>preferredLanguages := p\<rparr>) = 30 + Math_round ?rest"
    if "languagePoints a (h\<lparr>preferredLanguages := p\<rparr>) = 30" for p
  proof -
    have "calculateMatchScore dn nd a (h\<lparr>preferredLanguages := p\<rparr>) = Math_round (30 + ?rest)"
      by (simp add: calculateMatchScore_points that points_ignore_languages ac_simps)
    then show ?thesis by (simp only: Math_round_add_numeral)
  qed
  from 1 2 3 [OF 2(1)] 3 [OF 2(2)] show ?thesis by blast
qed

theorem no_language_preference_witness:
  "calculateLanguageMatch [] [] = 100 \<and>
   calculateMatchScore 0 0 (noAuPair\<lparr>languages := Some []\<rparr>)
     (noHost\<lparr>preferredLanguages := Some []\<rparr>) = 53"
proof -
  have "Math_round (countryPoints (noAuPair\<lparr>languages := Some []\<rparr>) noHost
          + agePoints 0 (noAuPair\<lparr>languages := Some []\<rparr>) noHost
          + availabilityPoints 0 (noAuPair\<lparr>languages := Some []\<rparr>)
          + budgetPoints (noAuPair\<lparr>languages := Some []\<rparr>) noHost) = 23"
    by code_simp
  then show ?thesis
    using no_language_preference [where ls = "[]" and a = "noAuPair\<lparr>languages := Some []\<rparr>"
        and h = noHost and dn = 0 and nd = 0]
    by simp
qed



section \<open>Claims about bookings\<close>

subsection \<open>The three rules of the conflict query are interval overlap\<close>

lemma conflictWhere_overlap:
  assumes "reqStart \<le> reqEnd" and "startDate b \<le> endDate b"
  shows "conflictWhere auPair reqStart reqEnd b \<longleftrightarrow>
     auPairId b = auPair \<and> (status b = PENDING \<or> status b = APPROVED) \<and>
     (\<exists>t. startDate b \<le> t \<and> t \<le> endDate b \<and> reqStart \<le> t \<and> t \<le> reqEnd)"
proof -
  have "(startDate b \<le> reqStart \<and> endDate b \<ge> reqStart) \<or>
        (startDate b \<le> reqEnd \<and> endDate b \<ge> reqEnd) \<or>
        (startDate b \<ge> reqStart \<and> endDate b \<le> reqEnd)
        \<longleftrightarrow> (\<exists>t. startDate b \<le> t \<and> t \<le> endDate b \<and> reqStart \<le> t \<and> t \<le> reqEnd)"
    (is "?rules \<longleftrightarrow> ?shared")
  proof
    assume ?rules
    then consider "startDate b \<le> reqStart \<and> endDate b \<ge> reqStart"
      | "startDate b \<le> reqEnd \<and> endDate b \<ge> reqEnd"
      | "startDate b \<ge> reqStart \<and> endDate b \<le> reqEnd" by blast
    then show ?shared
    proof cases
      case 1 with assms show ?thesis by (intro exI [of _ reqStart]) simp
    next
      case 2 with assms show ?thesis by (intro exI [of _ reqEnd]) simp
    next
      case 3 with assms show ?thesis by (intro exI [of _ "startDate b"]) simp
    qed
  next
    assume ?shared
    then obtain t where "startDate b \<le> t" "t \<le> endDate b" "reqStart \<le> t" "t \<le> reqEnd" by blast
    then show ?rules by linarith
  qed
  then show ?thesis by (simp add: conflictWhere_def)
qed

lemma overlap_conflictWhere:
  assumes "auPairId b = auPair" and "status b = PENDING \<or> status b = APPROVED"
    and "startDate b \<le> t" "t \<le> endDate b" "reqStart \<le> t" "t \<le> reqEnd"
  shows "conflictWhere auPair reqStart reqEnd b"
  using assms unfolding conflictWhere_def by auto

lemma conflictingBooking_None:
  "conflictingBooking rows auPair reqStart reqEnd = None \<longleftrightarrow>
     (\<forall>b \<in> set rows. \<not> conflictWhere auPair reqStart reqEnd b)"
  by (auto simp: conflictingBooking_def find_None_iff)

lemma find_filter_weaker:
  "(\<And>x. P x \<Longrightarrow> Q x) \<Longrightarrow> find P (filter Q xs) = find P xs"
  by (induction xs) auto

text \<open>
  Claim C2: for a proposed interval and the existing bookings, all with a start that is not
  after the end, the conflict query finds a booking if and only if some booking of the au
  pair whose status is PENDING or APPROVED shares an instant with the proposed interval,
  bounds included. A shared instant gives a conflict whatever the intervals are; bookings
  in any other status can be dropped without changing the result; a booking that touches
  the proposed interval at a boundary instant conflicts; bookings that all lie strictly
  before or strictly after the proposed interval do not.
\<close>

theorem conflict_iff_overlap:
  "(reqStart \<le> reqEnd \<and> (\<forall>b \<in> set rows. startDate b \<le> endDate b) \<longrightarrow>
      (conflictingBooking rows auPair reqStart reqEnd \<noteq> None) =
      (\<exists>b \<in> set rows. auPairId b = auPair \<and> (status b = PENDING \<or> status b = APPROVED) \<and>
         (\<exists>t. startDate b \<le> t \<and> t \<le> endDate b \<and> reqStart \<le> t \<and> t \<le> reqEnd))) \<and>
   ((\<exists>b \<in> set rows. auPairId b = auPair \<and> (status b = PENDING \<or> status b = APPROVED) \<and>
         (\<exists>t. startDate b \<le> t \<and> t \<le> endDate b \<and> reqStart \<le> t \<and> t \<le> reqEnd)) \<longrightarrow>
      conflictingBooking rows auPair reqStart reqEnd \<noteq> None) \<and>
   conflictingBooking rows auPair reqStart reqEnd =
     conflictingBooking (filter (\<lambda>b. status b = PENDING \<or> status b = APPROVED) rows)
       auPair reqStart reqEnd \<and>
   (reqStart \<le> reqEnd \<and> startDate r \<le> endDate r \<and> r \<in> set rows \<and> auPairId r = auPair \<and>
    (status r = PENDING \<or> status r = APPROVED) \<and> (endDate r = reqStart \<or> startDate r = reqEnd) \<longrightarrow>
      conflictingBooking rows auPair reqStart reqEnd \<noteq> None) \<and>
   (reqStart \<le> reqEnd \<and>
    (\<forall>b \<in> set rows. startDate b \<le> endDate b \<and> (endDate b < reqStart \<or> reqEnd < startDate b)) \<longrightarrow>
      conflictingBooking rows auPair reqStart reqEnd = None)"
proof (intro conjI impI)
  assume wf: "reqStart \<le> reqEnd \<and> (\<forall>b \<in> set rows. startDate b \<le> endDate b)"
  have "(\<exists>b \<in> set rows. conflictWhere auPair reqStart reqEnd b) =
      (\<exists>b \<in> set rows. auPairId b = auPair \<and> (status b = PENDING \<or> status b = APPROVED) \<and>
         (\<exists>t. startDate b \<le> t \<and> t \<le> endDate b \<and> reqStart \<le> t \<and> t \<le> reqEnd))"
  proof (rule bex_cong [OF refl])
    fix b assume "b \<in> set rows"
    with wf have "reqStart \<le> reqEnd" "startDate b \<le> endDate b" by simp_all
    then show "conflictWhere auPair reqStart reqEnd b =
      (auPairId b = auPair \<and> (status b = PENDING \<or> status b = APPROVED) \<and>
         (\<exists>t. startDate b \<le> t \<and> t \<le> endDate b \<and> reqStart \<le> t \<and> t \<le> reqEnd))"
      by (rule conflictWhere_overlap)
  qed
  then show "(conflictingBooking rows auPair reqStart reqEnd \<noteq> None) =
      (\<exists>b \<in> set rows. auPairId b = auPair \<and> (status b = PENDING \<or> status b = APPROVED) \<and>
         (\<exists>t. startDate b \<le> t \<and> t \<le> endDate b \<and> reqStart \<le> t \<and> t \<le> reqEnd))"
    unfolding conflictingBooking_None by simp
next
  assume "\<exists>b \<in> set rows. auPairId b = auPair \<and> (status b = PENDING \<or> status b = APPROVED) \<and>
         (\<exists>t. startDate b \<le> t \<and> t \<le> endDate b \<and> reqStart \<le> t \<and> t \<le> reqEnd)"
  then obtain b t where "b \<in> set rows" "auPairId b = auPair"
    "status b = PENDING \<or> status b = APPROVED"
    "startDate b \<le> t" "t \<le> endDate b" "reqStart \<le> t" "t \<le> reqEnd" by blast
  then have "b \<in> set rows" "conflictWhere auPair reqStart reqEnd b"
    by (simp_all add: overlap_conflictWhere)
  then show "conflictingBooking rows auPair reqStart reqEnd \<noteq> None"
    unfolding conflictingBooking_None by blast
next
  show "conflictingBooking rows auPair reqStart reqEnd =
     conflictingBooking (filter (\<lambda>b. status b = PENDING \<or> status b = APPROVED) rows)
       auPair reqStart reqEnd"
    unfolding conflictingBooking_def
    by (rule find_filter_weaker [symmetric]) (auto simp: conflictWhere_def)
next
  assume a: "reqStart \<le> reqEnd \<and> startDate r \<le> endDate r \<and> r \<in> set rows \<and> auPairId r = auPair \<and>
    (status r = PENDING \<or> status r = APPROVED) \<and> (endDate r = reqStart \<or> startDate r = reqEnd)"
  then have "conflictWhere auPair reqStart reqEnd r"
    unfolding conflictWhere_def by (simp, linarith)
  with a show "conflictingBooking rows auPair reqStart reqEnd \<noteq> None"
    unfolding conflictingBooking_None by blast
next
  assume a: "reqStart \<le> reqEnd \<and>
    (\<forall>b \<in> set rows. startDate b \<le> endDate b \<and> (endDate b < reqStart \<or> reqEnd < startDate b))"
  have "\<not> conflictWhere auPair reqStart reqEnd b" if "b \<in> set rows" for b
  proof -
    from a that have "reqStart \<le> reqEnd" "startDate b \<le> endDate b"
      "endDate b < reqStart \<or> reqEnd < startDate b" by simp_all
    then show ?thesis unfolding conflictWhere_def by linarith
  qed
  then show "conflictingBooking rows auPair reqStart reqEnd = None"
    unfolding conflictingBooking_None by blast
qed

theorem conflict_iff_overlap_witness:
  "(10 :: Date) \<le> 15 \<and> list_all (\<lambda>b. startDate b \<le> endDate b) sampleBookings \<and>
   conflictingBooking sampleBookings ''ap'' 10 15 \<noteq> None \<and>
   (\<exists>b \<in> set sampleBookings. auPairId b = ''ap'' \<and> (status b = PENDING \<or> status b = APPROVED) \<and>
      (\<exists>t. startDate b \<le> t \<and> t \<le> endDate b \<and> 10 \<le> t \<and> t \<le> 15)) \<and>
   conflictingBooking sampleBookings ''ap'' 1 5 = None \<and>
   \<not> (\<exists>b \<in> set sampleBookings. auPairId b = ''ap'' \<and> (status b = PENDING \<or> status b = APPROVED) \<and>
      (\<exists>t. startDate b \<le> t \<and> t \<le> endDate b \<and> 1 \<le> t \<and> t \<le> 5)) \<and>
   list_all (\<lambda>b. endDate b < 5 \<or> 14 < startDate b) sampleBookings \<and>
   conflictingBooking sampleBookings ''ap'' 5 14 = None"
proof -
  have wf: "\<forall>b \<in> set sampleBookings. startDate b \<le> endDate b"
    by (simp add: sampleBookings_def)
  have d: "conflictingBooking sampleBookings ''ap'' 10 15 \<noteq> None"
    using conflict_iff_overlap [where rows = sampleBookings and auPair = "''ap''"
        and reqStart = 10 and reqEnd = 15
        and r = "\<lparr>auPairId = ''ap'', hostId = ''h2'', startDate = 15, endDate = 20,
                   status = APPROVED\<rparr>",
        THEN conjunct2, THEN conjunct2, THEN conjunct2, THEN conjunct1]
    by (simp add: sampleBookings_def)
  have e: "conflictingBooking sampleBookings ''ap'' 1 5 = None"
    by code_simp
  have gap: "\<forall>b \<in> set sampleBookings. endDate b < 5 \<or> 14 < startDate b"
    by (simp add: sampleBookings_def)
  have g: "conflictingBooking sampleBookings ''ap'' 5 14 = None"
    using wf gap
      conflict_iff_overlap [where rows = sampleBookings and auPair = "''ap''"
        and reqStart = 5 and reqEnd = 14,
        THEN conjunct2, THEN conjunct2, THEN conjunct2, THEN conjunct2]
    by simp
  show ?thesis
    using wf d e g gap
      list_all_iff [of "\<lambda>b. startDate b \<le> endDate b" sampleBookings]
      list_all_iff [of "\<lambda>b. endDate b < 5 \<or> 14 < startDate b" sampleBookings]
      conflict_iff_overlap [where rows = sampleBookings and auPair = "''ap''"
        and reqStart = 10 and reqEnd = 15, THEN conjunct1]
      conflict_iff_overlap [where rows = sampleBookings and auPair = "''ap''"
        and reqStart = 1 and reqEnd = 5, THEN conjunct1]
    by simp
qed

text \<open>
  Claim C9: creating a booking answers with a validation error (status 400) and leaves the
  database as it is when a required field is missing, when the end is not strictly after
  the start, and when the start is strictly before the reading of the clock; a request
  reaches the answer of the conflict check, or the creation of a row, only with an end
  strictly after its start and a start not before the clock.
\<close>

theorem createBooking_validates:
  "(req_targetUserId req = None \<or> req_startDate req = None \<or> req_endDate req = None \<longrightarrow>
      createBooking now db req =
        (Response 400 ''Target user, start date, and end date are required'', db)) \<and>
   (req_targetUserId req = Some target \<and> req_startDate req = Some s \<and> req_endDate req = Some e \<and>
    e \<le> s \<longrightarrow>
      createBooking now db req = (Response 400 ''End date must be after start date'', db)) \<and>
   (req_targetUserId req = Some target \<and> req_startDate req = Some s \<and> req_endDate req = Some e \<and>
    s < e \<and> s < now \<longrightarrow>
      createBooking now db req = (Response 400 ''Start date cannot be in the past'', db)) \<and>
   (fst (createBooking now db req) = Response 201 ''Booking request created successfully'' \<or>
    fst (createBooking now db req) = Response 400 ''There is a conflicting booking for this time period'' \<or>
    snd (createBooking now db req) \<noteq> db \<longrightarrow>
      (\<exists>s' e'. req_startDate req = Some s' \<and> req_endDate req = Some e' \<and> s' < e' \<and> now \<le> s'))"
proof (intro conjI impI)
  assume "req_targetUserId req = None \<or> req_startDate req = None \<or> req_endDate req = None"
  then show "createBooking now db req =
        (Response 400 ''Target user, start date, and end date are required'', db)"
    by (auto simp: createBooking_def split: option.splits)
next
  assume "req_targetUserId req = Some target \<and> req_startDate req = Some s \<and> req_endDate req = Some e \<and> e \<le> s"
  then show "createBooking now db req = (Response 400 ''End date must be after start date'', db)"
    by (simp add: createBooking_def)
next
  assume "req_targetUserId req = Some target \<and> req_startDate req = Some s \<and> req_endDate req = Some e \<and>
    s < e \<and> s < now"
  then show "createBooking now db req = (Response 400 ''Start date cannot be in the past'', db)"
    by (simp add: createBooking_def)
next
  assume a: "fst (createBooking now db req) = Response 201 ''Booking request created successfully'' \<or>
    fst (createBooking now db req) = Response 400 ''There is a conflicting booking for this time period'' \<or>
    snd (createBooking now db req) \<noteq> db"
  show "\<exists>s' e'. req_startDate req = Some s' \<and> req_endDate req = Some e' \<and> s' < e' \<and> now \<le> s'"
  proof (cases "req_targetUserId req")
    case None
    with a show ?thesis by (simp add: createBooking_def)
  next
    case target: (Some target)
    show ?thesis
    proof (cases "req_startDate req")
      case None
      with a target show ?thesis by (simp add: createBooking_def)
    next
      case start: (Some s')
      show ?thesis
      proof (cases "req_endDate req")
        case None
        with a target start show ?thesis by (simp add: createBooking_def)
      next
        case end': (Some e')
        have "\<not> e' \<le> s'"
        proof
          assume "e' \<le> s'"
          with a target start end' show False by (simp add: createBooking_def)
        qed
        moreover have "\<not> s' < now"
        proof
          assume "s' < now"
          with a target start end' \<open>\<not> e' \<le> s'\<close> show False by (simp add: createBooking_def)
        qed
        ultimately show ?thesis using start end' by simp
      qed
    qed
  qed
qed

theorem createBooking_validates_witness:
  "createBooking 25 sampleDb (sampleRequest\<lparr>req_targetUserId := None\<rparr>) =
     (Response 400 ''Target user, start date, and end date are required'', sampleDb) \<and>
   createBooking 25 sampleDb (sampleRequest\<lparr>req_endDate := Some 30\<rparr>) =
     (Response 400 ''End date must be after start date'', sampleDb) \<and>
   createBooking 35 sampleDb sampleRequest =
     (Response 400 ''Start date cannot be in the past'', sampleDb) \<and>
   fst (createBooking 25 sampleDb sampleRequest) =
     Response 201 ''Booking request created successfully'' \<and>
   (\<exists>s' e'. req_startDate sampleRequest = Some s' \<and> req_endDate sampleRequest = Some e' \<and>
      s' < e' \<and> 25 \<le> s')"
proof -
  have created: "fst (createBooking 25 sampleDb sampleRequest) =
     Response 201 ''Booking request created successfully''"
    by code_simp
  have fields: "req_targetUserId sampleRequest = Some ''h2''"
    "req_startDate sampleRequest = Some 30" "req_endDate sampleRequest = Some 40"
    by (simp_all add: sampleRequest_def)
  show ?thesis
    using created fields
      createBooking_validates [where req = "sampleRequest\<lparr>req_targetUserId := None\<rparr>"
        and now = 25 and db = sampleDb, THEN conjunct1]
      createBooking_validates [where req = "sampleRequest\<lparr>req_endDate := Some 30\<rparr>"
        and now = 25 and db = sampleDb and target = "''h2''" and s = 30 and e = 30,
        THEN conjunct2, THEN conjunct1]
      createBooking_validates [where req = sampleRequest
        and now = 35 and db = sampleDb and target = "''h2''" and s = 30 and e = 40,
        THEN conjunct2, THEN conjunct2, THEN conjunct1]
      createBooking_validates [where req = sampleRequest
        and now = 25 and db = sampleDb, THEN conjunct2, THEN conjunct2, THEN conjunct2]
    by simp
qed

section \<open>Claims about the ranking\<close>

subsection \<open>Sorting with the comparison function of findMatches\<close>

lemma insertBy_byScoreDesc:
  "insertBy byScoreDesc x ys = insort_key (\<lambda>m. - matchScore m) x ys"
  by (induction ys) (simp_all add: byScoreDesc_def)

lemma sortBy_byScoreDesc: "sortBy byScoreDesc xs = sort_key (\<lambda>m. - matchScore m) xs"
proof -
  have "insertBy byScoreDesc = insort_key (\<lambda>m. - matchScore m)"
    by (intro ext) (rule insertBy_byScoreDesc)
  then show ?thesis by (simp add: sortBy_def sort_key_def)
qed

lemma sortBy_descending:
  "sorted_wrt (\<lambda>a b. matchScore a \<ge> matchScore b) (sortBy byScoreDesc xs)"
proof -
  have "sorted (map (\<lambda>m. - matchScore m) (sortBy byScoreDesc xs))"
    unfolding sortBy_byScoreDesc by (rule sorted_sort_key)
  then show ?thesis by (simp add: sorted_map)
qed

lemma sortBy_mset: "mset (sortBy byScoreDesc xs) = mset xs"
  unfolding sortBy_byScoreDesc by simp

lemma sortBy_stable:
  "filter (\<lambda>m. matchScore m = k) (sortBy byScoreDesc xs) = filter (\<lambda>m. matchScore m = k) xs"
proof -
  have "(\<lambda>m. matchScore m = k) = (\<lambda>m. - matchScore m = - k)" by auto
  then show ?thesis
    unfolding sortBy_byScoreDesc using sort_key_stable [of "\<lambda>m. - matchScore m" "- k" xs] by simp
qed

lemma slice0_nonneg: "0 \<le> n \<Longrightarrow> slice0 xs n = take (nat n) xs"
  by (simp add: slice0_def)

lemma sorted_wrt_take: "sorted_wrt R xs \<Longrightarrow> sorted_wrt R (take n xs)"
  by (metis append_take_drop_id sorted_wrt_append)

text \<open>
  Claim C8: for a user that is found, the array of scored counterparties is sorted by
  non-increasing match score, the sort keeps every element, and elements with equal scores
  keep their order; \<open>findMatches\<close> returns the first \<open>n\<close> elements of the sorted array for a
  limit \<open>n\<close> that is not negative, and the first 20 when no limit is given; the route
  returns the first 20 when the query has no limit and the first \<open>n\<close> for a positive
  limit \<open>n\<close>.
\<close>

theorem ranking:
  "findUnique table userId = Some user \<longrightarrow>
     sorted_wrt (\<lambda>a b. matchScore a \<ge> matchScore b)
       (sortBy byScoreDesc (potentialMatches clock table user)) \<and>
     mset (sortBy byScoreDesc (potentialMatches clock table user))
       = mset (potentialMatches clock table user) \<and>
     filter (\<lambda>m. matchScore m = k) (sortBy byScoreDesc (potentialMatches clock table user))
       = filter (\<lambda>m. matchScore m = k) (potentialMatches clock table user) \<and>
     (0 \<le> n \<longrightarrow>
        findMatches clock table userId (Some n)
          = Inr (take (nat n) (sortBy byScoreDesc (potentialMatches clock table user))) \<and>
        sorted_wrt (\<lambda>a b. matchScore a \<ge> matchScore b)
          (take (nat n) (sortBy byScoreDesc (potentialMatches clock table user)))) \<and>
     findMatches clock table userId None
       = Inr (take 20 (sortBy byScoreDesc (potentialMatches clock table user))) \<and>
     getPotential clock table userId None
       = Inr (take 20 (sortBy byScoreDesc (potentialMatches clock table user))) \<and>
     (0 < n \<longrightarrow>
        getPotential clock table userId (Some n)
          = Inr (take (nat n) (sortBy byScoreDesc (potentialMatches clock table user))))"
proof
  assume u: "findUnique table userId = Some user"
  let ?ranked = "sortBy byScoreDesc (potentialMatches clock table user)"
  have 1: "sorted_wrt (\<lambda>a b. matchScore a \<ge> matchScore b) ?ranked"
    by (rule sortBy_descending)
  have 2: "mset ?ranked = mset (potentialMatches clock table user)"
    by (rule sortBy_mset)
  have 3: "filter (\<lambda>m. matchScore m = k) ?ranked
       = filter (\<lambda>m. matchScore m = k) (potentialMatches clock table user)"
    by (rule sortBy_stable)
  have 4: "findMatches clock table userId (Some n) = Inr (take (nat n) ?ranked)" if "0 \<le> n" for n
    using u that by (simp add: findMatches_def slice0_nonneg)
  have 5: "sorted_wrt (\<lambda>a b. matchScore a \<ge> matchScore b) (take (nat n) ?ranked)"
    using 1 by (rule sorted_wrt_take)
  have 6: "findMatches clock table userId None = Inr (take 20 ?ranked)"
    using u by (simp add: findMatches_def slice0_def)
  have 7: "getPotential clock table userId None = Inr (take 20 ?ranked)"
    using 4 [of 20] by (simp add: getPotential_def potentialLimit_def)
  have 8: "getPotential clock table userId (Some n) = Inr (take (nat n) ?ranked)" if "0 < n"
    using 4 [of n] that by (simp add: getPotential_def potentialLimit_def)
  from 1 2 3 4 5 6 7 8 show "sorted_wrt (\<lambda>a b. matchScore a \<ge> matchScore b) ?ranked \<and>
     mset ?ranked = mset (potentialMatches clock table user) \<and>
     filter (\<lambda>m. matchScore m = k) ?ranked
       = filter (\<lambda>m. matchScore m = k) (potentialMatches clock table user) \<and>
     (0 \<le> n \<longrightarrow>
        findMatches clock table userId (Some n) = Inr (take (nat n) ?ranked) \<and>
        sorted_wrt (\<lambda>a b. matchScore a \<ge> matchScore b) (take (nat n) ?ranked)) \<and>
     findMatches clock table userId None = Inr (take 20 ?ranked) \<and>
     getPotential clock table userId None = Inr (take 20 ?ranked) \<and>
     (0 < n \<longrightarrow> getPotential clock table userId (Some n) = Inr (take (nat n) ?ranked))"
    by blast
qed

theorem ranking_witness:
  "findUnique sampleUsers ''ap'' = Some sampleAuPairUser \<and> (0 :: int) \<le> 2 \<and>
   findMatches sampleClock sampleUsers ''ap'' (Some 2)
     = Inr (take 2 (sortBy byScoreDesc (potentialMatches sampleClock sampleUsers sampleAuPairUser))) \<and>
   getPotential sampleClock sampleUsers ''ap'' (Some 2)
     = Inr (take 2 (sortBy byScoreDesc (potentialMatches sampleClock sampleUsers sampleAuPairUser))) \<and>
   map (\<lambda>m. (user_id (fst m), matchScore m))
       (potentialMatches sampleClock sampleUsers sampleAuPairUser)
     = [(''h1'', 60), (''h2'', 100), (''h5'', 60)] \<and>
   map (\<lambda>m. (user_id (fst m), matchScore m))
       (sortBy byScoreDesc (potentialMatches sampleClock sampleUsers sampleAuPairUser))
     = [(''h2'', 100), (''h1'', 60), (''h5'', 60)]"
proof -
  have found: "findUnique sampleUsers ''ap'' = Some sampleAuPairUser"
    by code_simp
  have scored: "map (\<lambda>m. (user_id (fst m), matchScore m))
       (potentialMatches sampleClock sampleUsers sampleAuPairUser)
     = [(''h1'', 60), (''h2'', 100), (''h5'', 60)]"
    by code_simp
  have sorted: "map (\<lambda>m. (user_id (fst m), matchScore m))
       (sortBy byScoreDesc (potentialMatches sampleClock sampleUsers sampleAuPairUser))
     = [(''h2'', 100), (''h1'', 60), (''h5'', 60)]"
    by code_simp
  show ?thesis
    using found scored sorted
      ranking [where table = sampleUsers and userId = "''ap''" and user = sampleAuPairUser
        and clock = sampleClock and n = 2]
    by simp
qed

end
